theory Spec2Isabelle
  imports Complex_Main
begin

section \<open>Exceptions\<close>

text \<open>
  The subclasses of Python's \<open>Exception\<close> that the embedded code raises itself or
  receives from a library. Every constructor carries \<open>str(e)\<close>, the message of the
  exception. \<open>KeyboardInterrupt\<close> and \<open>SystemExit\<close> are not subclasses of
  \<open>Exception\<close> and are outside the model.
\<close>

datatype exn =
    ValueError string
  | TypeError string
  | AttributeError string
  | KeyError string
  | IndexError string
  | OSError string
  | JSONDecodeError string
  | RuntimeError string

fun str_exn :: "exn \<Rightarrow> string" where
  "str_exn (ValueError m) = m"
| "str_exn (TypeError m) = m"
| "str_exn (AttributeError m) = m"
| "str_exn (KeyError m) = m"
| "str_exn (IndexError m) = m"
| "str_exn (OSError m) = m"
| "str_exn (JSONDecodeError m) = m"
| "str_exn (RuntimeError m) = m"

section \<open>akidb_mlx/model_loader.py\<close>

subsection \<open>The model registry\<close>

record model_info =
  repo_id :: string
  dimension :: int
  max_tokens :: int
  description :: string
  size_mb :: int

text \<open>The dict \<open>MODELS\<close>, in the order of its keys.\<close>

definition MODELS :: "(string \<times> model_info) list" where
  "MODELS =
    [(''qwen3-0.6b-4bit'',
      \<lparr>repo_id = ''mlx-community/Qwen3-Embedding-0.6B-4bit-DWQ'', dimension = 1024,
       max_tokens = 512,
       description = ''Qwen3 Embedding 0.6B quantized to 4-bit (default)'', size_mb = 600\<rparr>),
     (''gemma-300m-4bit'',
      \<lparr>repo_id = ''mlx-community/embeddinggemma-300m-4bit'', dimension = 768,
       max_tokens = 512,
       description = ''EmbeddingGemma 300M quantized to 4-bit (fast)'', size_mb = 200\<rparr>)]"

text \<open>\<open>", ".join(keys)\<close>.\<close>

fun join_comma :: "string list \<Rightarrow> string" where
  "join_comma [] = []"
| "join_comma [k] = k"
| "join_comma (k # ks) = k @ '', '' @ join_comma ks"

text \<open>
  A value that the annotations call \<open>str\<close> but that a caller can pass as \<open>None\<close>
  is a \<open>string option\<close>; \<open>py_str\<close> is how an f-string prints it.
\<close>

fun py_str :: "string option \<Rightarrow> string" where
  "py_str None = ''None''"
| "py_str (Some s) = s"

definition get_model_info :: "string option \<Rightarrow> exn + model_info" where
  "get_model_info model_name =
    (case (case model_name of None \<Rightarrow> None | Some n \<Rightarrow> map_of MODELS n) of
       None \<Rightarrow>
         Inl (ValueError (''Model '' @ [CHR 0x27] @ py_str model_name @ [CHR 0x27]
              @ '' not found. Available models: '' @ join_comma (map fst MODELS)))
     | Some info \<Rightarrow> Inr info)"

subsection \<open>The cache directory\<close>

text \<open>
  The file system below the cache root that \<open>get_cache_dir\<close> returns (and creates):
  a path \<open>cache_dir / name\<close> is identified with \<open>name\<close>, it is absent, a plain file, or a
  directory with the names of its entries. Model names are single path components.
\<close>

datatype node = File | Dir "string list"

type_synonym filesystem = "string \<Rightarrow> node option"

definition path_exists :: "filesystem \<Rightarrow> string \<Rightarrow> bool" where
  "path_exists fs p = (fs p \<noteq> None)"

text \<open>\<open>(p / filename).exists()\<close>: false when \<open>p\<close> is absent or not a directory.\<close>

definition child_exists :: "filesystem \<Rightarrow> string \<Rightarrow> string \<Rightarrow> bool" where
  "child_exists fs p filename =
    (case fs p of Some (Dir entries) \<Rightarrow> filename \<in> set entries | _ \<Rightarrow> False)"

definition endswith :: "string \<Rightarrow> string \<Rightarrow> bool" where
  "endswith s suf = (length suf \<le> length s \<and> drop (length s - length suf) s = suf)"

text \<open>\<open>p.glob("*" + suf)\<close>: the entries of the directory whose names end with \<open>suf\<close>.\<close>

definition glob_suffix :: "filesystem \<Rightarrow> string \<Rightarrow> string \<Rightarrow> string list" where
  "glob_suffix fs p suf =
    (case fs p of Some (Dir entries) \<Rightarrow> filter (\<lambda>f. endswith f suf) entries | _ \<Rightarrow> [])"

text \<open>\<open>cache_dir / model_name\<close> raises \<open>TypeError\<close> when the name is \<open>None\<close>.\<close>

definition get_model_path :: "string option \<Rightarrow> exn + string" where
  "get_model_path model_name =
    (case model_name of
       None \<Rightarrow> Inl (TypeError (''unsupported operand type(s) for /: 'PosixPath' and 'NoneType'' @ [CHR 0x27]))
     | Some n \<Rightarrow> Inr n)"

definition required_files :: "string list" where
  "required_files = [''config.json'']"

definition is_model_cached :: "filesystem \<Rightarrow> string option \<Rightarrow> exn + bool" where
  "is_model_cached fs model_name =
    (case get_model_path model_name of
       Inl e \<Rightarrow> Inl e
     | Inr model_path \<Rightarrow>
         Inr (if \<not> path_exists fs model_path then False
              else if list_ex (\<lambda>filename. \<not> child_exists fs model_path filename) required_files
                then False
              else if glob_suffix fs model_path ''.safetensors'' @ glob_suffix fs model_path ''.npz'' = []
                then False
              else True))"

text \<open>
  \<open>_save_model_metadata\<close> opens \<open>model_path / "akidb_metadata.json"\<close> for writing: the
  entry is created (or overwritten) when the model path is a directory, and the open
  fails otherwise.
\<close>

definition save_model_metadata :: "filesystem \<Rightarrow> string option \<Rightarrow> model_info \<Rightarrow> exn + filesystem" where
  "save_model_metadata fs model_name info =
    (case get_model_path model_name of
       Inl e \<Rightarrow> Inl e
     | Inr model_path \<Rightarrow>
         (case fs model_path of
            Some (Dir entries) \<Rightarrow>
              Inr (fs(model_path \<mapsto> Dir (List.insert ''akidb_metadata.json'' entries)))
          | _ \<Rightarrow> Inl (OSError (''No such file or directory: '' @ model_path @ ''/akidb_metadata.json''))))"

text \<open>\<open>shutil.rmtree\<close> removes a directory and raises on anything else.\<close>

definition rmtree :: "filesystem \<Rightarrow> string \<Rightarrow> exn + filesystem" where
  "rmtree fs p =
    (case fs p of
       Some (Dir entries) \<Rightarrow> Inr (fs(p := None))
     | Some File \<Rightarrow> Inl (OSError (''Not a directory: '' @ p))
     | None \<Rightarrow> Inl (OSError (''No such file or directory: '' @ p)))"

text \<open>
  \<open>snapshot_download(repo_id, local_dir)\<close> is the environment: any function from the
  file system to an outcome (the downloaded path, or the exception raised) and the
  file system it leaves behind, partial downloads included.
\<close>

type_synonym hub = "string \<Rightarrow> string \<Rightarrow> filesystem \<Rightarrow> (exn + string) \<times> filesystem"

text \<open>
  The body of the \<open>try\<close> of \<open>download_model\<close>: the fetch, then the metadata.
\<close>

definition download_try ::
  "hub \<Rightarrow> string option \<Rightarrow> model_info \<Rightarrow> string \<Rightarrow> filesystem \<Rightarrow> (exn + string) \<times> filesystem" where
  "download_try snapshot_download model_name info model_path fs =
    (case snapshot_download (repo_id info) model_path fs of
       (Inl e, fs1) \<Rightarrow> (Inl e, fs1)
     | (Inr downloaded_path, fs1) \<Rightarrow>
         (case save_model_metadata fs1 model_name info of
            Inl e \<Rightarrow> (Inl e, fs1)
          | Inr fs2 \<Rightarrow> (Inr downloaded_path, fs2)))"

text \<open>
  \<open>download_model\<close> returns its outcome, the file system afterwards and the list of the
  repositories it asked \<open>snapshot_download\<close> for (empty: no fetch was made).
\<close>

definition download_model ::
  "hub \<Rightarrow> string option \<Rightarrow> bool \<Rightarrow> filesystem \<Rightarrow> (exn + string) \<times> filesystem \<times> string list" where
  "download_model snapshot_download model_name force_redownload fs =
    (case get_model_info model_name of
       Inl e \<Rightarrow> (Inl e, fs, [])
     | Inr info \<Rightarrow>
    (case get_model_path model_name of
       Inl e \<Rightarrow> (Inl e, fs, [])
     | Inr model_path \<Rightarrow>
    (case (if force_redownload then Inr False else is_model_cached fs model_name) of
       Inl e \<Rightarrow> (Inl e, fs, [])
     | Inr True \<Rightarrow> (Inr model_path, fs, [])
     | Inr False \<Rightarrow>
         (case download_try snapshot_download model_name info model_path fs of
            (Inr p, fs') \<Rightarrow> (Inr p, fs', [repo_id info])
          | (Inl e, fs') \<Rightarrow>
              if path_exists fs' model_path
              then (case rmtree fs' model_path of
                      Inl e' \<Rightarrow> (Inl e', fs', [repo_id info])
                    | Inr fs'' \<Rightarrow> (Inl e, fs'', [repo_id info]))
              else (Inl e, fs', [repo_id info])))))"

definition list_cached_models :: "filesystem \<Rightarrow> exn + string list" where
  "list_cached_models fs =
    Inr (filter (\<lambda>model_name. is_model_cached fs (Some model_name) = Inr True) (map fst MODELS))"

section \<open>akidb_mlx/mlx_inference.py\<close>

text \<open>
  Arrays of floating-point numbers are lists of reals: rounding, overflow and NaN are
  not modelled. A two-dimensional array is the list of its rows. Hidden states, of shape
  \<open>[batch, seq_len, hidden]\<close>, carry the size of their last axis, which the nested list
  does not determine when \<open>seq_len\<close> is 0.
\<close>

record hidden_states =
  hidden_dim :: nat
  states :: "real list list list"

record tokenizer =
  encode :: "string \<Rightarrow> int list"
  eos_token_id :: int

record MLXEmbeddingModel =
  hidden_size :: nat
  mlx_tokenizer :: tokenizer
  qwen_model :: "int list list \<Rightarrow> exn + hidden_states"

text \<open>Python's \<open>xs[:n]\<close> and \<open>[x] * n\<close>, for any integer \<open>n\<close>.\<close>

definition py_take :: "int \<Rightarrow> 'a list \<Rightarrow> 'a list" where
  "py_take n xs = (if 0 \<le> n then take (nat n) xs else take (nat (int (length xs) + n)) xs)"

definition py_repeat :: "'a \<Rightarrow> int \<Rightarrow> 'a list" where
  "py_repeat x n = replicate (nat n) x"

text \<open>\<open>mx.array(rows)\<close> raises on rows of different lengths.\<close>

definition mx_array :: "int list list \<Rightarrow> exn + int list list" where
  "mx_array rows =
    (if list_all (\<lambda>r. length r = length (hd rows)) rows then Inr rows
     else Inl (ValueError ''Initialization encountered non-uniform length.''))"

text \<open>The body of the loop of \<open>tokenize\<close>, for one encoded text.\<close>

definition tokenize_row :: "int \<Rightarrow> int \<Rightarrow> int list \<Rightarrow> int list \<times> int list" where
  "tokenize_row pad_token_id max_length token_ids =
    (let seq_len = int (length token_ids) in
     if seq_len > max_length
     then (py_take max_length token_ids, py_repeat 1 max_length)
     else (let padding_length = max_length - seq_len in
           if padding_length > 0
           then (token_ids @ py_repeat pad_token_id padding_length,
                 py_repeat 1 seq_len @ py_repeat 0 padding_length)
           else (token_ids, py_repeat 1 max_length)))"

definition tokenize ::
  "MLXEmbeddingModel \<Rightarrow> string list \<Rightarrow> int \<Rightarrow> exn + (int list list \<times> int list list)" where
  "tokenize self texts max_length =
    (let all_token_ids = map (encode (mlx_tokenizer self)) texts;
         pad_token_id = eos_token_id (mlx_tokenizer self);
         rows = map (tokenize_row pad_token_id max_length) all_token_ids
     in case mx_array (map fst rows) of
          Inl e \<Rightarrow> Inl e
        | Inr input_ids \<Rightarrow>
            (case mx_array (map snd rows) of
               Inl e \<Rightarrow> Inl e
             | Inr attention_mask \<Rightarrow> Inr (input_ids, attention_mask)))"

text \<open>
  \<open>batch_size, seq_len = input_ids.shape\<close>: the array of an empty batch has the shape
  \<open>(0,)\<close>, and the unpacking raises.
\<close>

definition forward ::
  "MLXEmbeddingModel \<Rightarrow> int list list \<Rightarrow> int list list \<Rightarrow> exn + hidden_states" where
  "forward self input_ids attention_mask =
    (if input_ids = [] then Inl (ValueError ''not enough values to unpack (expected 2, got 1)'')
     else qwen_model self input_ids)"

text \<open>The sum of a list of vectors of length \<open>d\<close> (\<open>sum(..., axis=1)\<close> on one batch row).\<close>

definition vsum :: "nat \<Rightarrow> real list list \<Rightarrow> real list" where
  "vsum d vs = foldr (map2 (+)) vs (replicate d 0)"

text \<open>
  One batch row of \<open>_mean_pooling\<close>: the mask row is expanded and cast, multiplied into
  the hidden vectors, both are summed over the sequence axis, and the sum of the mask is
  raised to at least \<open>1e-9\<close>.
\<close>

definition mean_pooling_row :: "nat \<Rightarrow> real list list \<Rightarrow> int list \<Rightarrow> real list" where
  "mean_pooling_row d h m =
    (let attention_mask_expanded = map real_of_int m;
         sum_embeddings = vsum d (map2 (\<lambda>v a. map (\<lambda>x. x * a) v) h attention_mask_expanded);
         sum_mask = max (sum_list attention_mask_expanded) (1 / 10 ^ 9)
     in map (\<lambda>x. x / sum_mask) sum_embeddings)"

definition mean_pooling :: "hidden_states \<Rightarrow> int list list \<Rightarrow> real list list" where
  "mean_pooling hs attention_mask =
    map2 (mean_pooling_row (hidden_dim hs)) (states hs) attention_mask"

text \<open>\<open>hidden_states[:, 0, :]\<close> raises when the sequence axis is empty.\<close>

definition cls_pooling :: "hidden_states \<Rightarrow> exn + real list list" where
  "cls_pooling hs =
    (if list_ex (\<lambda>h. h = []) (states hs)
     then Inl (IndexError ''index 0 is out of bounds for axis 1 with size 0'')
     else Inr (map hd (states hs)))"

definition l2norm :: "real list \<Rightarrow> real" where
  "l2norm v = sqrt (sum_list (map (\<lambda>x. x ^ 2) v))"

definition l2_normalize_row :: "real list \<Rightarrow> real list" where
  "l2_normalize_row v =
    (let norms = max (l2norm v) (1 / 10 ^ 12) in map (\<lambda>x. x / norms) v)"

definition l2_normalize :: "real list list \<Rightarrow> real list list" where
  "l2_normalize embeddings = map l2_normalize_row embeddings"

definition embed ::
  "MLXEmbeddingModel \<Rightarrow> string list \<Rightarrow> string \<Rightarrow> bool \<Rightarrow> exn + real list list" where
  "embed self texts pooling normalize' =
    (case tokenize self texts 512 of
       Inl e \<Rightarrow> Inl e
     | Inr (input_ids, attention_mask) \<Rightarrow>
    (case forward self input_ids attention_mask of
       Inl e \<Rightarrow> Inl e
     | Inr hs \<Rightarrow>
    (case (if pooling = ''mean'' then Inr (mean_pooling hs attention_mask)
           else if pooling = ''cls'' then cls_pooling hs
           else Inl (ValueError (''Unknown pooling strategy: '' @ pooling))) of
       Inl e \<Rightarrow> Inl e
     | Inr embeddings \<Rightarrow>
         Inr (if normalize' then l2_normalize embeddings else embeddings))))"

section \<open>akidb_mlx/config.py and akidb_mlx/embedding_service.py\<close>

record EmbeddingConfig =
  cfg_model_name :: string
  cfg_pooling :: string
  cfg_normalize :: bool
  cfg_max_tokens :: int
  cfg_auto_download :: bool
  cfg_batch_size :: int

record EmbeddingService =
  svc_model_name :: string
  svc_pooling :: string
  svc_normalize :: bool
  svc_dimension :: int
  svc_max_tokens :: int
  svc_model_path :: string
  svc_mlx_model :: MLXEmbeddingModel

text \<open>
  \<open>EmbeddingService.__init__\<close>. The environment is \<open>EmbeddingConfig.from_yaml\<close> (the
  configuration it finds, for a path or for none), \<open>snapshot_download\<close> and the
  constructor of \<open>MLXEmbeddingModel\<close>, which reads the model directory. The arguments
  \<open>model_name\<close>, \<open>auto_download\<close>, \<open>pooling\<close>, \<open>normalize\<close>, \<open>config\<close> and
  \<open>config_path\<close> default to \<open>None\<close>. The cache check and the download receive the
  argument \<open>model_name\<close>, not \<open>self.model_name\<close>.
\<close>

definition resolve_config ::
  "(string option \<Rightarrow> EmbeddingConfig) \<Rightarrow> EmbeddingConfig option \<Rightarrow> string option \<Rightarrow>
   EmbeddingConfig" where
  "resolve_config from_yaml config config_path =
    (case config_path of
       Some p \<Rightarrow> from_yaml (Some p)
     | None \<Rightarrow> (case config of None \<Rightarrow> from_yaml None | Some c \<Rightarrow> c))"

definition EmbeddingService_init ::
  "(string option \<Rightarrow> EmbeddingConfig) \<Rightarrow> hub \<Rightarrow> (string \<Rightarrow> exn + MLXEmbeddingModel) \<Rightarrow>
   string option \<Rightarrow> bool option \<Rightarrow> string option \<Rightarrow> bool option \<Rightarrow>
   EmbeddingConfig option \<Rightarrow> string option \<Rightarrow> filesystem \<Rightarrow>
   (exn + EmbeddingService) \<times> filesystem" where
  "EmbeddingService_init from_yaml snapshot_download load_mlx
      model_name auto_download pooling normalize' config config_path fs =
    (let config = resolve_config from_yaml config config_path;
         self_model_name = (case model_name of Some n \<Rightarrow> n | None \<Rightarrow> cfg_model_name config);
         self_pooling = (case pooling of Some p \<Rightarrow> p | None \<Rightarrow> cfg_pooling config);
         self_normalize = (case normalize' of Some b \<Rightarrow> b | None \<Rightarrow> cfg_normalize config);
         auto_download = (case auto_download of Some b \<Rightarrow> b | None \<Rightarrow> cfg_auto_download config)
     in
     case get_model_info (Some self_model_name) of
       Inl e \<Rightarrow> (Inl e, fs)
     | Inr info \<Rightarrow>
    (case is_model_cached fs model_name of
       Inl e \<Rightarrow> (Inl e, fs)
     | Inr cached \<Rightarrow>
         if \<not> cached \<and> \<not> auto_download
         then (Inl (ValueError (''Model '' @ [CHR 0x27] @ py_str model_name @ [CHR 0x27]
                 @ '' not cached and auto_download=False'')), fs)
         else
           (case download_model snapshot_download model_name False fs of
              (Inl e, fs', fetched) \<Rightarrow> (Inl e, fs')
            | (Inr model_path, fs', fetched) \<Rightarrow>
                (case load_mlx model_path of
                   Inl e \<Rightarrow> (Inl e, fs')
                 | Inr mlx \<Rightarrow>
                     (Inr \<lparr>svc_model_name = self_model_name, svc_pooling = self_pooling,
                           svc_normalize = self_normalize, svc_dimension = dimension info,
                           svc_max_tokens = max_tokens info, svc_model_path = model_path,
                           svc_mlx_model = mlx\<rparr>, fs')))))"


section \<open>onnx_server.py\<close>

subsection \<open>JSON values and Python's operations on them\<close>

text \<open>
  What \<open>json.loads\<close> returns and \<open>json.dumps\<close> prints. A dict is the list of its
  items, with distinct keys.
\<close>

datatype json =
    JNull
  | JBool bool
  | JInt int
  | JFloat real
  | JStr string
  | JArr "json list"
  | JObj "(string \<times> json) list"

text \<open>\<open>type(x).__name__\<close>, for the messages of the exceptions.\<close>

fun type_name :: "json \<Rightarrow> string" where
  "type_name JNull = ''NoneType''"
| "type_name (JBool b) = ''bool''"
| "type_name (JInt i) = ''int''"
| "type_name (JFloat x) = ''float''"
| "type_name (JStr s) = ''str''"
| "type_name (JArr xs) = ''list''"
| "type_name (JObj kvs) = ''dict''"

definition quoted :: "string \<Rightarrow> string" where
  "quoted s = [CHR 0x27] @ s @ [CHR 0x27]"


text \<open>\<open>key in d\<close> for a dict \<open>d\<close> hashes the key: lists and dicts are not hashable.\<close>

fun hashable :: "json \<Rightarrow> bool" where
  "hashable (JArr xs) = False"
| "hashable (JObj kvs) = False"
| "hashable x = True"

definition py_in :: "json \<Rightarrow> (json \<Rightarrow> 'v option) \<Rightarrow> exn + bool" where
  "py_in key d =
    (if hashable key then Inr (d key \<noteq> None)
     else Inl (TypeError (''unhashable type: '' @ quoted (type_name key))))"

definition py_len :: "json \<Rightarrow> exn + nat" where
  "py_len x =
    (case x of
       JStr s \<Rightarrow> Inr (length s)
     | JArr xs \<Rightarrow> Inr (length xs)
     | JObj kvs \<Rightarrow> Inr (length kvs)
     | _ \<Rightarrow> Inl (TypeError (''object of type '' @ quoted (type_name x) @ '' has no len()'')))"

text \<open>The truth value of a value, as \<open>if normalize:\<close> takes it.\<close>

fun py_truthy :: "json \<Rightarrow> bool" where
  "py_truthy JNull = False"
| "py_truthy (JBool b) = b"
| "py_truthy (JInt i) = (i \<noteq> 0)"
| "py_truthy (JFloat x) = (x \<noteq> 0)"
| "py_truthy (JStr s) = (s \<noteq> [])"
| "py_truthy (JArr xs) = (xs \<noteq> [])"
| "py_truthy (JObj kvs) = (kvs \<noteq> [])"

text \<open>\<open>s.replace("/", "_")\<close>.\<close>

definition replace_slash :: "string \<Rightarrow> string" where
  "replace_slash s = map (\<lambda>c. if c = CHR ''/'' then CHR ''_'' else c) s"



subsection \<open>The libraries\<close>

text \<open>
  The objects the libraries hand back. A tokenizer is called on the inputs; a
  \<open>SentenceTransformer\<close> has a dimension and \<open>encode\<close>, whose result is taken after
  \<open>tolist()\<close>; an ONNX session has the last entry of the shape of its first output, its
  providers, the names of its inputs and \<open>run\<close>, of which the first output is taken.
\<close>

record encoded =
  enc_input_ids :: "int list list"
  enc_attention_mask :: "int list list"
  enc_token_type_ids :: "int list list option"

record hf_tokenizer =
  tok_call :: "json \<Rightarrow> exn + encoded"

record sentence_transformer =
  st_dimension :: json
  st_encode :: "json \<Rightarrow> json \<Rightarrow> exn + json"

record session =
  output_dim :: json
  get_providers :: "string list"
  input_names :: "string list"
  run_session :: "int list list \<Rightarrow> int list list \<Rightarrow> int list list option \<Rightarrow> exn + hidden_states"

text \<open>
  The environment of the server: \<open>json.loads\<close>, \<open>repr\<close> of a value that is not a
  string, \<open>Path(cache_dir).expanduser().mkdir(...)\<close>, \<open>AutoTokenizer.from_pretrained\<close>,
  \<open>onnx_path.exists()\<close>, the constructors \<open>SentenceTransformer\<close> and
  \<open>ort.InferenceSession\<close>. Each may raise.
\<close>

record env =
  json_loads :: "string \<Rightarrow> exn + json"
  repr :: "json \<Rightarrow> string"
  mkdir :: "string \<Rightarrow> exn option"
  from_pretrained :: "json \<Rightarrow> string \<Rightarrow> exn + hf_tokenizer"
  onnx_exists :: "string \<Rightarrow> string \<Rightarrow> bool"
  SentenceTransformer :: "string \<Rightarrow> string \<Rightarrow> exn + sentence_transformer"
  InferenceSession :: "string \<Rightarrow> string \<Rightarrow> exn + session"

text \<open>How an f-string prints a value.\<close>

definition py_format :: "env \<Rightarrow> json \<Rightarrow> string" where
  "py_format E x =
    (case x of
       JStr s \<Rightarrow> s
     | JNull \<Rightarrow> ''None''
     | JBool b \<Rightarrow> (if b then ''True'' else ''False'')
     | _ \<Rightarrow> repr E x)"

subsection \<open>The server\<close>

text \<open>
  The calls into the libraries that load a model or run one, recorded in the order
  they are made.
\<close>

datatype backend_call =
    LoadTokenizer json
  | LoadSentenceTransformer string
  | LoadSession string
  | CallEncode json json
  | CallTokenizer json json
  | CallRun json

text \<open>
  The four dicts of \<open>ONNXEmbeddingServer\<close>, and the record of the calls made so far,
  which is not a field of the class.
\<close>

record server =
  sessions :: "json \<Rightarrow> session option"
  tokenizers :: "json \<Rightarrow> hf_tokenizer option"
  dimensions :: "json \<Rightarrow> json option"
  pytorch_models :: "json \<Rightarrow> sentence_transformer option"
  calls :: "backend_call list"

definition init_server :: server where
  "init_server = \<lparr>sessions = Map.empty, tokenizers = Map.empty, dimensions = Map.empty,
                   pytorch_models = Map.empty, calls = []\<rparr>"

definition error_response :: "string \<Rightarrow> json" where
  "error_response msg = JObj [(''status'', JStr ''error''), (''message'', JStr msg)]"

definition py_repr :: "env \<Rightarrow> json \<Rightarrow> string" where
  "py_repr E x = (case x of JStr s \<Rightarrow> quoted s | _ \<Rightarrow> py_format E x)"

definition log_call :: "backend_call \<Rightarrow> server \<Rightarrow> server" where
  "log_call c self = self\<lparr>calls := calls self @ [c]\<rparr>"

text \<open>
  The body of the \<open>try\<close> of \<open>load_model\<close>, with the server as the statements leave it
  when one of them raises.
\<close>

definition load_model_try :: "env \<Rightarrow> server \<Rightarrow> json \<Rightarrow> json \<Rightarrow> (exn + json) \<times> server" where
  "load_model_try E self model_name cache_dir =
    (case cache_dir of
       JStr cache_path \<Rightarrow>
         (case mkdir E cache_path of
            Some e \<Rightarrow> (Inl e, self)
          | None \<Rightarrow>
         (let self1 = log_call (LoadTokenizer model_name) self in
          case from_pretrained E model_name cache_path of
            Inl e \<Rightarrow> (Inl e, self1)
          | Inr tokenizer \<Rightarrow>
         (let self2 = self1\<lparr>tokenizers := (tokenizers self1)(model_name \<mapsto> tokenizer)\<rparr> in
          case model_name of
            JStr name \<Rightarrow>
              (let onnx_path = replace_slash name @ ''.onnx'' in
               if \<not> onnx_exists E cache_path onnx_path
               then
                 (let self3 = log_call (LoadSentenceTransformer name) self2 in
                  case SentenceTransformer E name cache_path of
                    Inl e \<Rightarrow> (Inl e, self3)
                  | Inr model \<Rightarrow>
                      (Inr (JObj [(''status'', JStr ''ok''),
                                  (''message'', JStr ''Model loaded with PyTorch fallback (CPU/MPS)''),
                                  (''dimension'', st_dimension model),
                                  (''providers'', JArr [JStr ''PyTorchExecutionProvider''])]),
                       self3\<lparr>pytorch_models := (pytorch_models self3)(model_name \<mapsto> model),
                             dimensions := (dimensions self3)(model_name \<mapsto> st_dimension model)\<rparr>))
               else
                 (let self3 = log_call (LoadSession onnx_path) self2 in
                  case InferenceSession E cache_path onnx_path of
                    Inl e \<Rightarrow> (Inl e, self3)
                  | Inr session \<Rightarrow>
                      (Inr (JObj [(''status'', JStr ''ok''),
                                  (''message'', JStr ''Model loaded successfully''),
                                  (''dimension'', output_dim session),
                                  (''providers'', JArr (map JStr (get_providers session)))]),
                       self3\<lparr>sessions := (sessions self3)(model_name \<mapsto> session),
                             dimensions := (dimensions self3)(model_name \<mapsto> output_dim session)\<rparr>)))
          | _ \<Rightarrow>
              (Inl (AttributeError (quoted (type_name model_name) @ '' object has no attribute ''
                      @ quoted ''replace'')), self2))))
     | _ \<Rightarrow>
         (Inl (TypeError (''expected str, bytes or os.PathLike object, not ''
                 @ type_name cache_dir)), self))"

text \<open>
  \<open>load_model\<close>: the test \<open>model_name in self.sessions\<close> and the early return stand
  before the \<open>try\<close>, whose handler turns an exception into an error response.
\<close>

definition load_model :: "env \<Rightarrow> server \<Rightarrow> json \<Rightarrow> json \<Rightarrow> (exn + json) \<times> server" where
  "load_model E self model_name cache_dir =
    (case py_in model_name (sessions self) of
       Inl e \<Rightarrow> (Inl e, self)
     | Inr True \<Rightarrow>
         (case dimensions self model_name of
            None \<Rightarrow> (Inl (KeyError (py_repr E model_name)), self)
          | Some d \<Rightarrow>
              (Inr (JObj [(''status'', JStr ''ok''),
                          (''message'', JStr ''Model already loaded''),
                          (''dimension'', d)]), self))
     | Inr False \<Rightarrow>
         (case load_model_try E self model_name cache_dir of
            (Inl e, self') \<Rightarrow> (Inr (error_response (str_exn e)), self')
          | (Inr response, self') \<Rightarrow> (Inr response, self')))"

text \<open>
  The pooling and the normalization that \<open>embed_batch\<close> does with numpy on the ONNX
  path: \<open>np.clip(x, a_min=c, a_max=None)\<close> is \<open>max x c\<close>.
\<close>

definition onnx_mean_pooling_row :: "nat \<Rightarrow> real list list \<Rightarrow> int list \<Rightarrow> real list" where
  "onnx_mean_pooling_row d h m =
    (let sum_embeddings = vsum d (map2 (\<lambda>v a. map (\<lambda>x. x * real_of_int a) v) h m);
         sum_mask = max (real_of_int (sum_list m)) (1 / 10 ^ 9)
     in map (\<lambda>x. x / sum_mask) sum_embeddings)"

definition onnx_mean_pooling :: "hidden_states \<Rightarrow> int list list \<Rightarrow> real list list" where
  "onnx_mean_pooling hs attention_mask =
    map2 (onnx_mean_pooling_row (hidden_dim hs)) (states hs) attention_mask"

definition onnx_normalize :: "real list list \<Rightarrow> real list list" where
  "onnx_normalize embeddings =
    map (\<lambda>v. let norms = max (l2norm v) (1 / 10 ^ 12) in map (\<lambda>x. x / norms) v) embeddings"

definition tolist :: "real list list \<Rightarrow> json" where
  "tolist embeddings = JArr (map (\<lambda>row. JArr (map JFloat row)) embeddings)"

definition zeros_like :: "int list list \<Rightarrow> int list list" where
  "zeros_like a = map (map (\<lambda>x. 0)) a"

text \<open>
  The body of the \<open>try\<close> of \<open>embed_batch\<close>. The arrays that the tokenizer and the
  session return are taken to have the shapes \<open>[batch, seq_len]\<close> and
  \<open>[batch, seq_len, hidden]\<close>; numpy's errors on other shapes are not modelled.
\<close>

definition embed_batch_try ::
  "env \<Rightarrow> server \<Rightarrow> json \<Rightarrow> json \<Rightarrow> json \<Rightarrow> (exn + json) \<times> server" where
  "embed_batch_try E self model_name inputs normalize' =
    (case pytorch_models self model_name of
       Some model \<Rightarrow>
         (let self1 = log_call (CallEncode model_name inputs) self in
          case st_encode model inputs normalize' of
            Inl e \<Rightarrow> (Inl e, self1)
          | Inr embeddings \<Rightarrow>
              (case py_len inputs of
                 Inl e \<Rightarrow> (Inl e, self1)
               | Inr n \<Rightarrow>
                   (Inr (JObj [(''status'', JStr ''ok''), (''embeddings'', embeddings),
                               (''count'', JInt (int n))]), self1)))
     | None \<Rightarrow>
    (case sessions self model_name of
       None \<Rightarrow> (Inl (KeyError (py_repr E model_name)), self)
     | Some session \<Rightarrow>
    (case tokenizers self model_name of
       None \<Rightarrow> (Inl (KeyError (py_repr E model_name)), self)
     | Some tokenizer \<Rightarrow>
    (let self1 = log_call (CallTokenizer model_name inputs) self in
     case tok_call tokenizer inputs of
       Inl e \<Rightarrow> (Inl e, self1)
     | Inr enc \<Rightarrow>
    (let token_type_ids =
           (if ''token_type_ids'' \<in> set (input_names session)
            then Some (case enc_token_type_ids enc of
                         Some t \<Rightarrow> t
                       | None \<Rightarrow> zeros_like (enc_input_ids enc))
            else None);
         self2 = log_call (CallRun model_name) self1
     in
     case run_session session (enc_input_ids enc) (enc_attention_mask enc) token_type_ids of
       Inl e \<Rightarrow> (Inl e, self2)
     | Inr hidden_states \<Rightarrow>
         (let embeddings = onnx_mean_pooling hidden_states (enc_attention_mask enc);
              embeddings = (if py_truthy normalize' then onnx_normalize embeddings else embeddings)
          in
          case py_len inputs of
            Inl e \<Rightarrow> (Inl e, self2)
          | Inr n \<Rightarrow>
              (Inr (JObj [(''status'', JStr ''ok''), (''embeddings'', tolist embeddings),
                          (''count'', JInt (int n))]), self2)))))))"

definition embed_batch ::
  "env \<Rightarrow> server \<Rightarrow> json \<Rightarrow> json \<Rightarrow> json \<Rightarrow> (exn + json) \<times> server" where
  "embed_batch E self model_name inputs normalize' =
    (case py_in model_name (sessions self) of
       Inl e \<Rightarrow> (Inl e, self)
     | Inr in_sessions \<Rightarrow>
         if \<not> in_sessions \<and> pytorch_models self model_name = None
         then (Inr (error_response (''Model not loaded: '' @ py_format E model_name
                      @ ''. Call load_model first.'')), self)
         else
           (case embed_batch_try E self model_name inputs normalize' of
              (Inl e, self') \<Rightarrow> (Inr (error_response (str_exn e)), self')
            | (Inr response, self') \<Rightarrow> (Inr response, self')))"


text \<open>
  The two handlers of the loop of \<open>run\<close>: \<open>json.JSONDecodeError\<close> first, then any
  other \<open>Exception\<close>.
\<close>

definition except_response :: "exn \<Rightarrow> json" where
  "except_response e =
    (case e of
       JSONDecodeError m \<Rightarrow> error_response (''Invalid JSON: '' @ m)
     | _ \<Rightarrow> error_response (''Internal error: '' @ str_exn e))"



section \<open>The properties in the words of the specification\<close>


text \<open>
  A well-formed response of the protocol: an object whose status is \<open>ok\<close>, or whose
  status is \<open>error\<close> and which carries a message.
\<close>

definition is_response :: "json \<Rightarrow> bool" where
  "is_response r =
    (case r of
       JObj kvs \<Rightarrow>
         map_of kvs ''status'' = Some (JStr ''ok'') \<or>
         (map_of kvs ''status'' = Some (JStr ''error'') \<and>
          (case map_of kvs ''message'' of Some (JStr m) \<Rightarrow> True | _ \<Rightarrow> False))
     | _ \<Rightarrow> False)"

section \<open>Concrete inputs\<close>

text \<open>A cache that holds one complete model, and one that holds a directory of a name
  the registry does not have.\<close>

definition fs_cached :: filesystem where
  "fs_cached = Map.empty(''qwen3-0.6b-4bit'' \<mapsto> Dir [''config.json'', ''model.safetensors''])"


text \<open>A fetch that writes a configuration and a weight file and then fails.\<close>

definition hub_fails :: hub where
  "hub_fails repo local_dir fs =
     (Inl (OSError ''Connection reset by peer''),
      fs(local_dir \<mapsto> Dir [''config.json'', ''model.safetensors'']))"

text \<open>A tokenizer that encodes a text as its character codes, and a model on it.\<close>

definition tok_chars :: tokenizer where
  "tok_chars = \<lparr>encode = (\<lambda>s. map (\<lambda>c. int (of_char c)) s), eos_token_id = 2\<rparr>"

definition mlx_example :: MLXEmbeddingModel where
  "mlx_example =
    \<lparr>hidden_size = 2, mlx_tokenizer = tok_chars,
     qwen_model = (\<lambda>ids. Inr \<lparr>hidden_dim = 2, states = map (map (\<lambda>i. [real_of_int i, 1])) ids\<rparr>)\<rparr>"


text \<open>The configuration \<open>EmbeddingConfig()\<close> of the defaults.\<close>

definition default_config :: EmbeddingConfig where
  "default_config =
    \<lparr>cfg_model_name = ''qwen3-0.6b-4bit'', cfg_pooling = ''mean'', cfg_normalize = True,
     cfg_max_tokens = 512, cfg_auto_download = True, cfg_batch_size = 32\<rparr>"

text \<open>
  An environment of the server in which no ONNX file exists, so that every model is
  loaded through the fallback, and \<open>json.loads\<close> on the lines used below.
\<close>

definition tok_example :: hf_tokenizer where
  "tok_example =
    \<lparr>tok_call = (\<lambda>inputs. case inputs of
         JArr xs \<Rightarrow> Inr \<lparr>enc_input_ids = map (\<lambda>x. [101, 102]) xs,
                          enc_attention_mask = map (\<lambda>x. [1, 1]) xs,
                          enc_token_type_ids = None\<rparr>
       | _ \<Rightarrow> Inl (ValueError ''text input must be a list of strings''))\<rparr>"

definition st_example :: sentence_transformer where
  "st_example =
    \<lparr>st_dimension = JInt 2,
     st_encode = (\<lambda>inputs normalize'. case inputs of
         JArr xs \<Rightarrow> Inr (JArr (map (\<lambda>x. JArr [JFloat 1, JFloat 0]) xs))
       | _ \<Rightarrow> Inl (TypeError ''inputs must be a list of strings''))\<rparr>"

definition ping_line :: string where
  "ping_line = ''{\"method\": \"ping\"}''"

definition loads_example :: "string \<Rightarrow> exn + json" where
  "loads_example s =
    (if s = ping_line then Inr (JObj [(''method'', JStr ''ping'')])
     else if s = ''[]'' then Inr (JArr [])
     else Inl (JSONDecodeError ''Expecting value: line 1 column 1 (char 0)''))"

definition env_fallback :: env where
  "env_fallback =
    \<lparr>json_loads = loads_example, repr = (\<lambda>x. ''?''), mkdir = (\<lambda>p. None),
     from_pretrained = (\<lambda>name cache. Inr tok_example),
     onnx_exists = (\<lambda>cache p. False),
     SentenceTransformer = (\<lambda>name cache. Inr st_example),
     InferenceSession = (\<lambda>cache p. Inl (RuntimeError ''No such file''))\<rparr>"

text \<open>The server after one successful \<open>load_model\<close> of the model \<open>m\<close>.\<close>

definition server_fallback :: server where
  "server_fallback = snd (load_model env_fallback init_server (JStr ''m'') (JStr ''c''))"

section \<open>The cache manager\<close>














section \<open>The embedding service\<close>

lemma EmbeddingService_init_None:
  "fst (EmbeddingService_init from_yaml snapshot_download load_mlx
          None auto_download pooling normalize' config config_path fs) =
     (case map_of MODELS (cfg_model_name (resolve_config from_yaml config config_path)) of
        None \<Rightarrow>
          Inl (ValueError (''Model '' @ [CHR 0x27]
                 @ cfg_model_name (resolve_config from_yaml config config_path) @ [CHR 0x27]
                 @ '' not found. Available models: '' @ join_comma (map fst MODELS)))
      | Some info \<Rightarrow>
          Inl (TypeError (''unsupported operand type(s) for /: 'PosixPath' and 'NoneType''
                 @ [CHR 0x27])))"
  by (simp add: EmbeddingService_init_def get_model_info_def is_model_cached_def
      get_model_path_def Let_def split: option.split)

text \<open>
  Claim C10. Whenever \<open>model_name\<close> is omitted, \<open>EmbeddingService.__init__\<close> ends in an
  exception, whatever the other arguments, the configuration and the cache are. When
  the configuration supplies a name of the registry, the exception is the \<open>TypeError\<close>
  that \<open>get_model_path\<close> raises on \<open>None\<close>, reached through \<open>is_model_cached(model_name)\<close>,
  and the file system is left as it was.
\<close>

theorem EmbeddingService_init_without_model_name_raises:
  "(\<exists>e. fst (EmbeddingService_init from_yaml snapshot_download load_mlx
              None auto_download pooling normalize' config config_path fs) = Inl e)
   \<and> (map_of MODELS (cfg_model_name (resolve_config from_yaml config config_path)) \<noteq> None \<longrightarrow>
        EmbeddingService_init from_yaml snapshot_download load_mlx
          None auto_download pooling normalize' config config_path fs =
        (Inl (TypeError (''unsupported operand type(s) for /: 'PosixPath' and 'NoneType''
                @ [CHR 0x27])), fs))"
proof -
  have "snd (EmbeddingService_init from_yaml snapshot_download load_mlx
          None auto_download pooling normalize' config config_path fs) = fs"
    by (simp add: EmbeddingService_init_def get_model_info_def is_model_cached_def
        get_model_path_def Let_def split: option.split)
  then show ?thesis
    using EmbeddingService_init_None[of from_yaml snapshot_download load_mlx auto_download
        pooling normalize' config config_path fs]
    by (auto simp: prod_eq_iff split: option.splits)
qed

theorem EmbeddingService_init_without_model_name_raises_witness:
  "map_of MODELS (cfg_model_name (resolve_config (\<lambda>p. default_config) None None)) \<noteq> None \<and>
   EmbeddingService_init (\<lambda>p. default_config) hub_fails (\<lambda>p. Inr mlx_example)
     None None None None None None fs_cached =
   (Inl (TypeError (''unsupported operand type(s) for /: 'PosixPath' and 'NoneType''
           @ [CHR 0x27])), fs_cached)"
  using EmbeddingService_init_without_model_name_raises[of "\<lambda>p. default_config" hub_fails
      "\<lambda>p. Inr mlx_example" None None None None None fs_cached]
  by (simp add: resolve_config_def default_config_def MODELS_def)

section \<open>The tokenizer adapter\<close>








section \<open>Pooling and normalization\<close>


























section \<open>The protocol server\<close>

lemma is_response_error [simp]: "is_response (error_response m)"
  by (simp add: is_response_def error_response_def)

lemma is_response_ok [simp]: "is_response (JObj ((''status'', JStr ''ok'') # kvs))"
  by (simp add: is_response_def)

lemma is_response_except [simp]: "is_response (except_response e)"
  by (cases e) (simp_all add: except_response_def)

























section \<open>Loading and embedding in the server\<close>

lemma load_model_first:
  "load_model env_fallback init_server (JStr ''m'') (JStr ''c'') =
    (Inr (JObj [(''status'', JStr ''ok''),
                (''message'', JStr ''Model loaded with PyTorch fallback (CPU/MPS)''),
                (''dimension'', JInt 2),
                (''providers'', JArr [JStr ''PyTorchExecutionProvider''])]),
     \<lparr>sessions = Map.empty, tokenizers = [JStr ''m'' \<mapsto> tok_example],
      dimensions = [JStr ''m'' \<mapsto> JInt 2], pytorch_models = [JStr ''m'' \<mapsto> st_example],
      calls = [LoadTokenizer (JStr ''m''), LoadSentenceTransformer ''m'']\<rparr>)"
  by (simp add: load_model_def load_model_try_def py_in_def init_server_def env_fallback_def
      log_call_def st_example_def replace_slash_def Let_def)

lemma server_fallback_eq:
  "server_fallback =
     \<lparr>sessions = Map.empty, tokenizers = [JStr ''m'' \<mapsto> tok_example],
      dimensions = [JStr ''m'' \<mapsto> JInt 2], pytorch_models = [JStr ''m'' \<mapsto> st_example],
      calls = [LoadTokenizer (JStr ''m''), LoadSentenceTransformer ''m'']\<rparr>"
  by (simp add: server_fallback_def load_model_first)

lemma load_model_second:
  "load_model env_fallback server_fallback (JStr ''m'') (JStr ''c'') =
    (Inr (JObj [(''status'', JStr ''ok''),
                (''message'', JStr ''Model loaded with PyTorch fallback (CPU/MPS)''),
                (''dimension'', JInt 2),
                (''providers'', JArr [JStr ''PyTorchExecutionProvider''])]),
     \<lparr>sessions = Map.empty, tokenizers = [JStr ''m'' \<mapsto> tok_example],
      dimensions = [JStr ''m'' \<mapsto> JInt 2], pytorch_models = [JStr ''m'' \<mapsto> st_example],
      calls = [LoadTokenizer (JStr ''m''), LoadSentenceTransformer ''m'',
               LoadTokenizer (JStr ''m''), LoadSentenceTransformer ''m'']\<rparr>)"
  unfolding server_fallback_eq
  by (simp add: load_model_def load_model_try_def py_in_def env_fallback_def
      log_call_def st_example_def replace_slash_def Let_def)

text \<open>
  Claim C4, on the fallback path. With no ONNX file in the cache, \<open>load_model\<close> stores
  the model in \<open>self.pytorch_models\<close> and not in \<open>self.sessions\<close>, the only dict that its
  test for an already loaded model reads. The second of two consecutive calls for the
  model \<open>m\<close> therefore does not answer \<open>Model already loaded\<close>: it loads the tokenizer and
  constructs the \<open>SentenceTransformer\<close> again, and answers as the first call did.
\<close>

theorem load_model_fallback_reloads:
  "fst (load_model env_fallback init_server (JStr ''m'') (JStr ''c'')) =
     Inr (JObj [(''status'', JStr ''ok''),
                (''message'', JStr ''Model loaded with PyTorch fallback (CPU/MPS)''),
                (''dimension'', JInt 2),
                (''providers'', JArr [JStr ''PyTorchExecutionProvider''])]) \<and>
   calls server_fallback = [LoadTokenizer (JStr ''m''), LoadSentenceTransformer ''m''] \<and>
   fst (load_model env_fallback server_fallback (JStr ''m'') (JStr ''c'')) =
     Inr (JObj [(''status'', JStr ''ok''),
                (''message'', JStr ''Model loaded with PyTorch fallback (CPU/MPS)''),
                (''dimension'', JInt 2),
                (''providers'', JArr [JStr ''PyTorchExecutionProvider''])]) \<and>
   calls (snd (load_model env_fallback server_fallback (JStr ''m'') (JStr ''c''))) =
     [LoadTokenizer (JStr ''m''), LoadSentenceTransformer ''m'',
      LoadTokenizer (JStr ''m''), LoadSentenceTransformer ''m'']"
  unfolding load_model_first load_model_second
  by (simp add: server_fallback_eq)

text \<open>
  On the ONNX path the second call is answered from the dicts: when the session of a
  model is registered, \<open>load_model\<close> returns its dimension and calls no loader.
\<close>

lemma load_model_session_loaded:
  assumes "hashable model_name" "sessions self model_name = Some session"
    "dimensions self model_name = Some d"
  shows "load_model E self model_name cache_dir =
    (Inr (JObj [(''status'', JStr ''ok''), (''message'', JStr ''Model already loaded''),
                (''dimension'', d)]), self)"
  using assms by (simp add: load_model_def py_in_def)

lemma embed_batch_fallback_empty:
  assumes "hashable model_name" "pytorch_models self model_name = Some model"
  shows "embed_batch E self model_name (JArr []) nz =
     (Inr (case st_encode model (JArr []) nz of
             Inl e \<Rightarrow> error_response (str_exn e)
           | Inr embeddings \<Rightarrow>
               JObj [(''status'', JStr ''ok''), (''embeddings'', embeddings),
                     (''count'', JInt 0)]),
      log_call (CallEncode model_name (JArr [])) self)"
  using assms
  by (simp add: embed_batch_def embed_batch_try_def py_in_def py_len_def Let_def
      split: sum.split)

lemma embed_batch_onnx_empty:
  assumes "hashable model_name" "pytorch_models self model_name = None"
    "sessions self model_name = Some session" "tokenizers self model_name = Some tokenizer"
  shows "take (Suc (length (calls self)))
           (calls (snd (embed_batch E self model_name (JArr []) nz))) =
         calls self @ [CallTokenizer model_name (JArr [])]"
  using assms
  by (simp add: embed_batch_def embed_batch_try_def py_in_def py_len_def Let_def log_call_def
      split: sum.split)

lemma embed_batch_not_loaded:
  assumes "hashable model_name" "pytorch_models self model_name = None"
    "sessions self model_name = None"
  shows "embed_batch E self model_name inputs nz =
     (Inr (error_response (''Model not loaded: '' @ py_format E model_name
             @ ''. Call load_model first.'')), self)"
  using assms by (simp add: embed_batch_def py_in_def)

lemma tokenize_empty: "tokenize self [] max_length = Inr ([], [])"
  by (simp add: tokenize_def mx_array_def)

lemma embed_empty:
  "embed self [] pooling normalize' =
     Inl (ValueError ''not enough values to unpack (expected 2, got 1)'')"
  by (simp add: embed_def tokenize_empty forward_def)

text \<open>
  Claim C5, as amended. No code path tests for an empty batch. In the server, an
  \<open>embed_batch\<close> request with an empty list of inputs for a model loaded through the
  fallback calls \<open>encode\<close> on the empty list, and answers with status \<open>ok\<close> and the count 0
  when the call returns, and with the message of the exception when it raises; for a
  model with an ONNX session the tokenizer is called on the empty list. Only a model
  that is not loaded is rejected before any call, as for any inputs. In the MLX model,
  \<open>tokenize\<close> returns an empty batch for an empty list and \<open>embed\<close> then raises
  \<open>ValueError\<close> in the forward pass, on unpacking the shape.
\<close>

theorem embed_batch_empty_inputs_reach_backend:
  "(hashable model_name \<and> pytorch_models self model_name = Some model \<longrightarrow>
      embed_batch E self model_name (JArr []) nz =
        (Inr (case st_encode model (JArr []) nz of
                Inl e \<Rightarrow> error_response (str_exn e)
              | Inr embeddings \<Rightarrow>
                  JObj [(''status'', JStr ''ok''), (''embeddings'', embeddings),
                        (''count'', JInt 0)]),
         log_call (CallEncode model_name (JArr [])) self))
   \<and> (hashable model_name \<and> pytorch_models self model_name = None \<and>
       sessions self model_name = Some session \<and> tokenizers self model_name = Some tokenizer \<longrightarrow>
      take (Suc (length (calls self)))
        (calls (snd (embed_batch E self model_name (JArr []) nz))) =
      calls self @ [CallTokenizer model_name (JArr [])])
   \<and> (hashable model_name \<and> pytorch_models self model_name = None \<and>
       sessions self model_name = None \<longrightarrow>
      embed_batch E self model_name (JArr []) nz =
        (Inr (error_response (''Model not loaded: '' @ py_format E model_name
                @ ''. Call load_model first.'')), self))
   \<and> tokenize mlx [] max_length = Inr ([], [])
   \<and> embed mlx [] pooling normalize' =
        Inl (ValueError ''not enough values to unpack (expected 2, got 1)'')"
  using embed_batch_fallback_empty[of model_name self model E nz]
    embed_batch_onnx_empty[of model_name self session tokenizer E nz]
    embed_batch_not_loaded[of model_name self E "JArr []" nz]
    tokenize_empty[of mlx max_length] embed_empty[of mlx pooling normalize']
  by (intro conjI impI) simp_all

lemma embed_batch_example:
  "embed_batch env_fallback server_fallback (JStr ''m'') (JArr []) (JBool True) =
     (Inr (JObj [(''status'', JStr ''ok''), (''embeddings'', JArr []), (''count'', JInt 0)]),
      log_call (CallEncode (JStr ''m'') (JArr [])) server_fallback)"
proof -
  have "pytorch_models server_fallback (JStr ''m'') = Some st_example"
    by (simp add: server_fallback_eq)
  from embed_batch_fallback_empty[OF _ this, of env_fallback "JBool True"] show ?thesis
    by (simp add: st_example_def)
qed

theorem embed_batch_empty_inputs_reach_backend_witness:
  "hashable (JStr ''m'') \<and> pytorch_models server_fallback (JStr ''m'') = Some st_example \<and>
   embed_batch env_fallback server_fallback (JStr ''m'') (JArr []) (JBool True) =
     (Inr (JObj [(''status'', JStr ''ok''), (''embeddings'', JArr []), (''count'', JInt 0)]),
      log_call (CallEncode (JStr ''m'') (JArr [])) server_fallback)"
proof -
  have h: "hashable (JStr ''m'')" by simp
  have p: "pytorch_models server_fallback (JStr ''m'') = Some st_example"
    by (simp add: server_fallback_eq)
  have "hashable (JStr ''m'') \<and> pytorch_models server_fallback (JStr ''m'') = Some st_example \<longrightarrow>
      embed_batch env_fallback server_fallback (JStr ''m'') (JArr []) (JBool True) =
        (Inr (case st_encode st_example (JArr []) (JBool True) of
                Inl e \<Rightarrow> error_response (str_exn e)
              | Inr embeddings \<Rightarrow>
                  JObj [(''status'', JStr ''ok''), (''embeddings'', embeddings),
                        (''count'', JInt 0)]),
         log_call (CallEncode (JStr ''m'') (JArr [])) server_fallback)"
    by (rule conjunct1[OF embed_batch_empty_inputs_reach_backend])
  with h p have "embed_batch env_fallback server_fallback (JStr ''m'') (JArr []) (JBool True) =
        (Inr (case st_encode st_example (JArr []) (JBool True) of
                Inl e \<Rightarrow> error_response (str_exn e)
              | Inr embeddings \<Rightarrow>
                  JObj [(''status'', JStr ''ok''), (''embeddings'', embeddings),
                        (''count'', JInt 0)]),
         log_call (CallEncode (JStr ''m'') (JArr [])) server_fallback)"
    by simp
  then have "embed_batch env_fallback server_fallback (JStr ''m'') (JArr []) (JBool True) =
     (Inr (JObj [(''status'', JStr ''ok''), (''embeddings'', JArr []), (''count'', JInt 0)]),
      log_call (CallEncode (JStr ''m'') (JArr [])) server_fallback)"
    by (simp add: st_example_def)
  with h p show ?thesis by (intro conjI)
qed

text \<open>
  Claim C5 as stated fails: for the model \<open>m\<close>, loaded through the fallback, the request
  with the empty list of inputs is not rejected. The backend is called on the empty list
  and the response has the status \<open>ok\<close>. The tokenizer of the MLX model accepts the empty
  list as well.
\<close>

theorem embed_batch_empty_inputs_counterexample:
  "fst (embed_batch env_fallback server_fallback (JStr ''m'') (JArr []) (JBool True)) =
     Inr (JObj [(''status'', JStr ''ok''), (''embeddings'', JArr []), (''count'', JInt 0)]) \<and>
   calls (snd (embed_batch env_fallback server_fallback (JStr ''m'') (JArr []) (JBool True))) =
     [LoadTokenizer (JStr ''m''), LoadSentenceTransformer ''m'',
      CallEncode (JStr ''m'') (JArr [])] \<and>
   tokenize mlx_example [] 512 = Inr ([], [])"
  unfolding embed_batch_example
  by (simp add: log_call_def server_fallback_eq tokenize_empty)


end
